theory Spec2Isabelle
  imports Complex_Main "HOL-Library.Multiset"
begin

section \<open>Text\<close>

text \<open>
  A Python \<open>str\<close> is modelled as a \<open>string\<close> holding its UTF-8 bytes: the text that the
  program reads from files or decodes from a subprocess is well-formed UTF-8, and on
  such text the tests and functions below agree with those of Python on the characters.
\<close>

definition newline :: char where
  "newline = CHR 0x0A"

definition backslash :: char where
  "backslash = CHR 0x5C"

fun startswith :: "string \<Rightarrow> string \<Rightarrow> bool" where
  "startswith s [] = True"
| "startswith [] (p # ps) = False"
| "startswith (c # cs) (p # ps) = (c = p \<and> startswith cs ps)"

text \<open>\<open>str_in needle s\<close> is Python's \<open>needle in s\<close>.\<close>

fun str_in :: "string \<Rightarrow> string \<Rightarrow> bool" where
  "str_in needle [] = (needle = [])"
| "str_in needle (c # cs) = (startswith (c # cs) needle \<or> str_in needle cs)"

definition endswith :: "string \<Rightarrow> string \<Rightarrow> bool" where
  "endswith s suffix = startswith (rev s) (rev suffix)"

text \<open>
  The characters for which \<open>str.isspace\<close> holds, which are those that \<open>str.strip\<close>
  removes, each in UTF-8: U+0009 to U+000D, U+001C to U+0020, U+0085, U+00A0, U+1680,
  U+2000 to U+200A, U+2028, U+2029, U+202F, U+205F and U+3000.
\<close>

definition whitespace :: "string list" where
  "whitespace =
    [ [CHR 0x09], [CHR 0x0A], [CHR 0x0B], [CHR 0x0C], [CHR 0x0D], [CHR 0x1C], [CHR 0x1D],
     [CHR 0x1E], [CHR 0x1F], [CHR 0x20], [CHR 0xC2, CHR 0x85], [CHR 0xC2, CHR 0xA0],
     [CHR 0xE1, CHR 0x9A, CHR 0x80], [CHR 0xE2, CHR 0x80, CHR 0x80],
     [CHR 0xE2, CHR 0x80, CHR 0x81], [CHR 0xE2, CHR 0x80, CHR 0x82],
     [CHR 0xE2, CHR 0x80, CHR 0x83], [CHR 0xE2, CHR 0x80, CHR 0x84],
     [CHR 0xE2, CHR 0x80, CHR 0x85], [CHR 0xE2, CHR 0x80, CHR 0x86],
     [CHR 0xE2, CHR 0x80, CHR 0x87], [CHR 0xE2, CHR 0x80, CHR 0x88],
     [CHR 0xE2, CHR 0x80, CHR 0x89], [CHR 0xE2, CHR 0x80, CHR 0x8A],
     [CHR 0xE2, CHR 0x80, CHR 0xA8], [CHR 0xE2, CHR 0x80, CHR 0xA9],
     [CHR 0xE2, CHR 0x80, CHR 0xAF], [CHR 0xE2, CHR 0x81, CHR 0x9F],
     [CHR 0xE3, CHR 0x80, CHR 0x80] ]"

text \<open>Removing from the front of a text, as long as there is one, a character out of a
  list of characters.\<close>

function strip_left :: "string list \<Rightarrow> string \<Rightarrow> string" where
  "strip_left chars s =
     (case find (\<lambda>w. w \<noteq> [] \<and> startswith s w) chars of
        None \<Rightarrow> s
      | Some w \<Rightarrow> strip_left chars (drop (length w) s))"
  by pat_completeness auto

termination
proof (relation "measure (\<lambda>(chars, s). length s)")
  show "wf (measure (\<lambda>(chars, s). length s))" by simp
next
  fix chars :: "string list" and s w :: string
  assume "find (\<lambda>w. w \<noteq> [] \<and> startswith s w) chars = Some w"
  then have "w \<noteq> []" and "startswith s w" by (auto simp: find_Some_iff)
  then have "s \<noteq> []" by (cases s; cases w) auto
  with \<open>w \<noteq> []\<close> show "((chars, drop (length w) s), (chars, s)) \<in> measure (\<lambda>(chars, s). length s)"
    by simp
qed

declare strip_left.simps [simp del]

text \<open>\<open>s.strip()\<close>: the whitespace characters at the two ends are removed.\<close>

definition lstrip :: "string \<Rightarrow> string" where
  "lstrip s = strip_left whitespace s"

definition rstrip :: "string \<Rightarrow> string" where
  "rstrip s = rev (strip_left (map rev whitespace) (rev s))"

definition strip :: "string \<Rightarrow> string" where
  "strip s = rstrip (lstrip s)"

text \<open>\<open>sep.join(xs)\<close>\<close>

fun str_join :: "string \<Rightarrow> string list \<Rightarrow> string" where
  "str_join sep [] = []"
| "str_join sep [x] = x"
| "str_join sep (x # y # ys) = x @ sep @ str_join sep (y # ys)"

text \<open>\<open>s.replace("\\", "/")\<close>, the only replacement the program makes.\<close>

definition replace_backslash :: "string \<Rightarrow> string" where
  "replace_backslash s = map (\<lambda>c. if c = backslash then CHR ''/'' else c) s"

section \<open>Exceptions and logging\<close>

text \<open>
  An exception is its class, as far as the handlers of the program tell classes apart,
  and the text \<open>str(e)\<close> that the program formats into its messages.
  \<open>KeyboardInterrupt\<close> stands for the classes that are not subclasses of \<open>Exception\<close>
  (\<open>SystemExit\<close> is another): a clause \<open>except Exception\<close> lets them pass.
\<close>

datatype exn_class =
  TimeoutExpired | KeyError | UnicodeDecodeError | OtherException | KeyboardInterrupt

datatype exn = Exn (exn_class: exn_class) (str_exn: string)

definition is_Exception :: "exn \<Rightarrow> bool" where
  "is_Exception e = (exn_class e \<noteq> KeyboardInterrupt)"

datatype level = DEBUG | INFO | WARNING | ERROR

type_synonym log = "(level \<times> string) list"

section \<open>Files\<close>

text \<open>
  A file opened for reading as text delivers its decoded text piece by piece: the
  reader decodes the next piece only when it needs more text, and that is when an
  ill-formed piece raises. So an open file is the sequence of the pieces that decode,
  after newline translation (the only line terminator is the byte 10), ended by the
  end of the file or by the exception that the next piece raises. The file system maps
  a path to the exception raised by \<open>open\<close>, or to the open file.
\<close>

datatype stream = EOF | Chunk string stream | Fail exn

type_synonym filesystem = "string \<Rightarrow> exn + stream"

text \<open>The first line of a text, up to and including its terminator, and the rest.\<close>

fun cut :: "string \<Rightarrow> string \<times> string" where
  "cut [] = ([], [])"
| "cut (c # cs) =
     (if c = newline then ([c], cs)
      else (case cut cs of (l, r) \<Rightarrow> (c # l, r)))"

text \<open>
  \<open>f.readline()\<close>, for a reader that holds the text \<open>buf\<close> that is decoded and not yet
  consumed, in front of the rest of the file: the line, and the reader after the call.
  More text is fetched as long as the text held has no line terminator. At the end of
  the file the line is what is left, the empty string when nothing is.
\<close>

fun readline :: "string \<Rightarrow> stream \<Rightarrow> exn + (string \<times> string \<times> stream)" where
  "readline buf EOF = Inr (fst (cut buf), snd (cut buf), EOF)"
| "readline buf (Fail e) =
     (if newline \<in> set buf then Inr (fst (cut buf), snd (cut buf), Fail e) else Inl e)"
| "readline buf (Chunk c f) =
     (if newline \<in> set buf then Inr (fst (cut buf), snd (cut buf), Chunk c f)
      else readline (buf @ c) f)"

text \<open>\<open>f.read()\<close> from the start of the file: the whole text.\<close>

fun read_all :: "stream \<Rightarrow> exn + string" where
  "read_all EOF = Inr []"
| "read_all (Fail e) = Inl e"
| "read_all (Chunk c f) = (case read_all f of Inl e \<Rightarrow> Inl e | Inr s \<Rightarrow> Inr (c @ s))"

text \<open>The number of characters that the file has still to deliver.\<close>

fun pending :: "stream \<Rightarrow> nat" where
  "pending EOF = 0"
| "pending (Fail e) = 0"
| "pending (Chunk c f) = length c + pending f"

text \<open>The lines of a text, each with its terminator.\<close>

fun file_lines :: "string \<Rightarrow> string list" where
  "file_lines [] = []"
| "file_lines (c # cs) =
     (if c = newline then [c] # file_lines cs
      else (case file_lines cs of [] \<Rightarrow> [c] # [] | l # ls \<Rightarrow> (c # l) # ls))"

section \<open>Decoding bytes\<close>

text \<open>
  \<open>bytes.decode("utf-8")\<close>. With text held as UTF-8 bytes, decoding returns its
  argument when the bytes are well-formed, and raises \<open>UnicodeDecodeError\<close> at the first
  ill-formed sequence otherwise, with the message of CPython's strict decoder.
\<close>

fun str_nat :: "nat \<Rightarrow> string" where
  "str_nat n = (if n < 10 then [char_of (48 + n)] else str_nat (n div 10) @ [char_of (48 + n mod 10)])"

definition hex_digit :: "nat \<Rightarrow> char" where
  "hex_digit d = (if d < 10 then char_of (48 + d) else char_of (87 + d))"

definition hex2 :: "nat \<Rightarrow> string" where
  "hex2 b = [hex_digit (b div 16), hex_digit (b mod 16)]"

definition quote :: char where
  "quote = CHR 0x27"

definition decode_error :: "nat \<Rightarrow> nat \<Rightarrow> nat \<Rightarrow> string \<Rightarrow> exn" where
  "decode_error byte start endpos reason =
     Exn UnicodeDecodeError
       ([quote] @ ''utf-8'' @ [quote] @ '' codec can'' @ [quote] @ ''t decode ''
        @ (if endpos = start + 1
           then ''byte 0x'' @ hex2 byte @ '' in position '' @ str_nat start
           else ''bytes in position '' @ str_nat start @ ''-'' @ str_nat (endpos - 1))
        @ '': '' @ reason)"

definition is_continuation :: "nat \<Rightarrow> bool" where
  "is_continuation b = (128 \<le> b \<and> b < 192)"

text \<open>The first decoding error of the bytes that start at offset \<open>pos\<close>, if there is one.\<close>

fun utf8_error :: "nat \<Rightarrow> nat list \<Rightarrow> exn option" where
  "utf8_error pos [] = None"
| "utf8_error pos (ch # rest) =
     (let unexpected_end = Some (decode_error ch pos (pos + 1 + length rest) ''unexpected end of data'');
          invalid_start = Some (decode_error ch pos (pos + 1) ''invalid start byte'');
          invalid_continuation = (\<lambda>k. Some (decode_error ch pos (pos + k) ''invalid continuation byte''))
      in
      if ch < 0x80 then utf8_error (pos + 1) rest
      else if ch < 0xE0 then
        (if ch < 0xC2 then invalid_start
         else (case rest of
                 [] \<Rightarrow> unexpected_end
               | ch2 # rest2 \<Rightarrow>
                   if \<not> is_continuation ch2 then invalid_continuation 1
                   else utf8_error (pos + 2) rest2))
      else if ch < 0xF0 then
        (case rest of
           [] \<Rightarrow> unexpected_end
         | [ch2] \<Rightarrow>
             if \<not> is_continuation ch2 \<or> (if ch2 < 0xA0 then ch = 0xE0 else ch = 0xED)
             then invalid_continuation 1 else unexpected_end
         | ch2 # ch3 # rest3 \<Rightarrow>
             if \<not> is_continuation ch2 then invalid_continuation 1
             else if ch = 0xE0 \<and> ch2 < 0xA0 then invalid_continuation 1
             else if ch = 0xED \<and> 0xA0 \<le> ch2 then invalid_continuation 1
             else if \<not> is_continuation ch3 then invalid_continuation 2
             else utf8_error (pos + 3) rest3)
      else if ch < 0xF5 then
        (case rest of
           [] \<Rightarrow> unexpected_end
         | [ch2] \<Rightarrow>
             if \<not> is_continuation ch2 \<or> (if ch2 < 0x90 then ch = 0xF0 else ch = 0xF4)
             then invalid_continuation 1 else unexpected_end
         | [ch2, ch3] \<Rightarrow>
             if \<not> is_continuation ch2 \<or> (if ch2 < 0x90 then ch = 0xF0 else ch = 0xF4)
             then invalid_continuation 1
             else if \<not> is_continuation ch3 then invalid_continuation 2
             else unexpected_end
         | ch2 # ch3 # ch4 # rest4 \<Rightarrow>
             if \<not> is_continuation ch2 then invalid_continuation 1
             else if ch = 0xF0 \<and> ch2 < 0x90 then invalid_continuation 1
             else if ch = 0xF4 \<and> 0x90 \<le> ch2 then invalid_continuation 1
             else if \<not> is_continuation ch3 then invalid_continuation 2
             else if \<not> is_continuation ch4 then invalid_continuation 3
             else utf8_error (pos + 4) rest4)
      else invalid_start)"

definition decode_utf8 :: "string \<Rightarrow> exn + string" where
  "decode_utf8 b = (case utf8_error 0 (map of_char b) of None \<Rightarrow> Inr b | Some e \<Rightarrow> Inl e)"

section \<open>Classifier\<close>

subsection \<open>is_main_tex_file\<close>

text \<open>\<open>logging.error(f"Error reading {tex_file_path}: {e}")\<close>\<close>

definition read_error :: "string \<Rightarrow> exn \<Rightarrow> log" where
  "read_error tex_file_path e = [(ERROR, ''Error reading '' @ tex_file_path @ '': '' @ str_exn e)]"

definition directive_prefix :: string where
  "directive_prefix = ''% auto-latexmk''"

definition docclass_marker :: string where
  "docclass_marker = backslash # ''documentclass''"

text \<open>
  The loop \<open>for _ in range(3)\<close> over \<open>f.readline()\<close>: the counter, the reader, and the two
  flags \<open>(exclude_flag, include_flag)\<close>. \<open>str.lower\<close> is the parameter \<open>lower\<close>: its table of
  case mappings belongs to the interpreter.
\<close>

fun scan_directives ::
  "(string \<Rightarrow> string) \<Rightarrow> nat \<Rightarrow> string \<Rightarrow> stream \<Rightarrow> bool \<times> bool \<Rightarrow> exn + (bool \<times> bool)" where
  "scan_directives lower 0 buf f flags = Inr flags"
| "scan_directives lower (Suc n) buf f (exclude_flag, include_flag) =
     (case readline buf f of
        Inl e \<Rightarrow> Inl e
      | Inr (line, buf', f') \<Rightarrow>
          if line = [] then Inr (exclude_flag, include_flag)
          else
            let line_strip = lower (strip line);
                exclude_flag' =
                  (if startswith line_strip directive_prefix
                      \<and> (str_in ''exclude'' line_strip \<or> str_in ''skip'' line_strip)
                   then True else exclude_flag);
                include_flag' =
                  (if startswith line_strip directive_prefix \<and> str_in ''include'' line_strip
                   then True else include_flag)
            in scan_directives lower n buf' f' (exclude_flag', include_flag'))"

text \<open>The \<open>try\<close> block: the value it returns, or the exception that leaves it.\<close>

definition try_is_main :: "(string \<Rightarrow> string) \<Rightarrow> filesystem \<Rightarrow> string \<Rightarrow> bool \<Rightarrow> exn + bool" where
  "try_is_main lower fs tex_file_path only_include_mode =
     (case fs tex_file_path of
        Inl e \<Rightarrow> Inl e
      | Inr f \<Rightarrow>
          (case scan_directives lower 3 [] f (False, False) of
             Inl e \<Rightarrow> Inl e
           | Inr (exclude_flag, include_flag) \<Rightarrow>
               (case read_all f of
                  Inl e \<Rightarrow> Inl e
                | Inr content \<Rightarrow>
                    let has_docclass = str_in docclass_marker content
                    in if \<not> has_docclass then Inr False
                       else if only_include_mode then Inr include_flag
                       else Inr (\<not> exclude_flag))))"

text \<open>The function: \<open>Inl\<close> is an exception that the handler does not catch.\<close>

definition is_main_tex_file ::
  "(string \<Rightarrow> string) \<Rightarrow> filesystem \<Rightarrow> string \<Rightarrow> bool \<Rightarrow> (exn + bool) \<times> log" where
  "is_main_tex_file lower fs tex_file_path only_include_mode =
     (case try_is_main lower fs tex_file_path only_include_mode of
        Inr b \<Rightarrow> (Inr b, [])
      | Inl e \<Rightarrow>
          if is_Exception e then (Inr False, read_error tex_file_path e) else (Inl e, []))"

subsection \<open>get_tex_engine\<close>

definition shebang_prefix :: string where
  "shebang_prefix = ''% !TEX''"

definition begin_document :: string where
  "begin_document = backslash # ''begin{document}''"

text \<open>The first \<open>with open\<close> block: the pair it returns, \<open>None\<close> when it ends without a
  \<open>return\<close>.\<close>

definition shebang_pass :: "filesystem \<Rightarrow> string \<Rightarrow> exn + (string \<times> string) option" where
  "shebang_pass fs tex_file_path =
     (case fs tex_file_path of
        Inl e \<Rightarrow> Inl e
      | Inr f \<Rightarrow>
          (case readline [] f of
             Inl e \<Rightarrow> Inl e
           | Inr (line, buf, f') \<Rightarrow>
               let first_line = strip line
               in if startswith first_line shebang_prefix then
                    (let first_line = strip first_line
                     in if str_in ''xelatex'' first_line then Inr (Some (''xelatex'', first_line))
                        else if str_in ''pdflatex'' first_line then Inr (Some (''pdflatex'', first_line))
                        else if str_in ''lualatex'' first_line then Inr (Some (''lualatex'', first_line))
                        else Inr None)
                  else Inr None))"

text \<open>The loop \<open>for line in f\<close> of the second block: the line it returns, \<open>None\<close> when it
  ends without a \<open>return\<close>, at the end of the file or at the \<open>break\<close>.\<close>

function scan_ctex :: "string \<Rightarrow> stream \<Rightarrow> exn + string option" where
  "scan_ctex buf f =
     (case readline buf f of
        Inl e \<Rightarrow> Inl e
      | Inr (l, buf', f') \<Rightarrow>
          if l = [] then Inr None
          else
            let line = strip l
            in if str_in begin_document line then Inr None
               else if str_in ''ctex'' line then Inr (Some line)
               else scan_ctex buf' f')"
  by pat_completeness auto

termination
proof (relation "measure (\<lambda>(buf, f). length buf + pending f)")
  show "wf (measure (\<lambda>(buf, f). length buf + pending f))" by simp
next
  fix buf :: string and f :: stream and x l y buf' f'
  assume r: "readline buf f = Inr x" "(l, y) = x" "(buf', f') = y" and l: "l \<noteq> []"
  have cut: "length (fst (cut s)) + length (snd (cut s)) = length s" for s
    by (induction s) (auto split: prod.splits)
  have consumed: "readline b f = Inr (l, buf', f') \<Longrightarrow>
          length l + (length buf' + pending f') = length b + pending f" for b
  proof (induction f arbitrary: b)
    case EOF
    then show ?case using cut[of b] by auto
  next
    case (Chunk c f)
    then show ?case using cut[of b] by (auto split: if_splits)
  next
    case (Fail e)
    then show ?case using cut[of b] by (auto split: if_splits)
  qed
  from r have "readline buf f = Inr (l, buf', f')" by auto
  then have "length l + (length buf' + pending f') = length buf + pending f"
    by (rule consumed)
  with l show "((buf', f'), (buf, f)) \<in> measure (\<lambda>(buf, f). length buf + pending f)"
    by (cases l) auto
qed

declare scan_ctex.simps [simp del]

definition ctex_pass :: "filesystem \<Rightarrow> string \<Rightarrow> exn + (string \<times> string) option" where
  "ctex_pass fs tex_file_path =
     (case fs tex_file_path of
        Inl e \<Rightarrow> Inl e
      | Inr f \<Rightarrow>
          (case scan_ctex [] f of
             Inl e \<Rightarrow> Inl e
           | Inr None \<Rightarrow> Inr None
           | Inr (Some line) \<Rightarrow> Inr (Some (''xelatex'', line))))"

text \<open>The \<open>try\<close> block: the pair it returns, \<open>None\<close> when control reaches its end, or the
  exception that leaves it.\<close>

definition try_engine :: "filesystem \<Rightarrow> string \<Rightarrow> exn + (string \<times> string) option" where
  "try_engine fs tex_file_path =
     (case shebang_pass fs tex_file_path of
        Inl e \<Rightarrow> Inl e
      | Inr (Some found) \<Rightarrow> Inr (Some found)
      | Inr None \<Rightarrow> ctex_pass fs tex_file_path)"

definition get_tex_engine ::
  "filesystem \<Rightarrow> string \<Rightarrow> string \<Rightarrow> (exn + string \<times> string option) \<times> log" where
  "get_tex_engine fs tex_file_path default_engine =
     (case try_engine fs tex_file_path of
        Inr (Some (eng, line)) \<Rightarrow> (Inr (eng, Some line), [])
      | Inr None \<Rightarrow> (Inr (default_engine, None), [])
      | Inl e \<Rightarrow>
          if is_Exception e then (Inr (default_engine, None), read_error tex_file_path e)
          else (Inl e, []))"

section \<open>Task discovery\<close>

text \<open>A task is a dict with four string keys; \<open>append_info\<close> may be \<open>None\<close>.\<close>

record task =
  tex_file :: string
  subdir :: string
  engine :: string
  append_info :: "string option"

text \<open>
  What \<open>os.walk(root_dir, topdown=True)\<close> finds under a directory: its subdirectories by
  name and the names of its other entries, in the order of the listing. \<open>Unvisited\<close> is
  an entry that \<open>os.walk\<close> reports among the directory names without descending into it:
  a symbolic link to a directory, or a directory whose listing fails.
\<close>

datatype tree = Dir "(string \<times> tree) list" "string list" | Unvisited

text \<open>
  The operating system as discovery sees it: the tree under a root, the outcome of
  opening a path, and \<open>os.path.abspath\<close>, which raises when it needs the current
  directory and that is gone. Paths are POSIX paths.
\<close>

record os_env =
  walk_tree :: "string \<Rightarrow> tree"
  read_file :: filesystem
  abspath :: "string \<Rightarrow> exn + string"

definition path_join :: "string \<Rightarrow> string \<Rightarrow> string" where
  "path_join a b =
     (if startswith b ''/'' then b
      else if a = [] \<or> endswith a ''/'' then a @ b
      else a @ ''/'' @ b)"

definition SKIP_DIRS :: "string list" where
  "SKIP_DIRS = [''.git'', ''.aux'']"

text \<open>
  The iterations of a loop, each with the tasks it appends and what it logs, run in
  order: an exception that leaves an iteration leaves the loop, with what was logged
  until then.
\<close>

fun in_order :: "((exn + 'a list) \<times> log) list \<Rightarrow> (exn + 'a list) \<times> log" where
  "in_order [] = (Inr [], [])"
| "in_order ((Inl e, lg) # rest) = (Inl e, lg)"
| "in_order ((Inr xs, lg) # rest) =
     (case in_order rest of
        (Inl e, lg') \<Rightarrow> (Inl e, lg @ lg')
      | (Inr ys, lg') \<Rightarrow> (Inr (xs @ ys), lg @ lg'))"

text \<open>The body of the loop over \<open>tex_file_list\<close>: the tasks appended for one file name (none
  or one), and what was logged.\<close>

definition file_task ::
  "(string \<Rightarrow> string) \<Rightarrow> os_env \<Rightarrow> string \<Rightarrow> string \<Rightarrow> bool \<Rightarrow> string \<Rightarrow> (exn + task list) \<times> log" where
  "file_task lower os dir default_engine only_include_mode tex_file_item =
     (case abspath os (path_join dir tex_file_item) of
        Inl e \<Rightarrow> (Inl e, [])
      | Inr absolute \<Rightarrow>
          let path = replace_backslash absolute
          in case is_main_tex_file lower (read_file os) path only_include_mode of
               (Inl e, lg) \<Rightarrow> (Inl e, lg)
             | (Inr False, lg) \<Rightarrow> (Inr [], lg)
             | (Inr True, lg) \<Rightarrow>
                 (case get_tex_engine (read_file os) path default_engine of
                    (Inl e, lg') \<Rightarrow> (Inl e, lg @ lg')
                  | (Inr (eng, info), lg') \<Rightarrow>
                      let eng = (if eng = ''pdflatex'' then ''pdf'' else eng)
                      in (Inr [\<lparr>tex_file = path, subdir = replace_backslash dir,
                                engine = eng, append_info = info\<rparr>], lg @ lg')))"

text \<open>The body of the loop over \<open>os.walk\<close>, for one directory and the names of its
  entries.\<close>

definition dir_tasks ::
  "(string \<Rightarrow> string) \<Rightarrow> os_env \<Rightarrow> string \<Rightarrow> string \<Rightarrow> bool \<Rightarrow> string list \<Rightarrow> (exn + task list) \<times> log" where
  "dir_tasks lower os dir default_engine only_include_mode files =
     (let tex_file_list = filter (\<lambda>f. endswith f ''.tex'') files
      in in_order (map (file_task lower os dir default_engine only_include_mode) tex_file_list))"

text \<open>The loop over \<open>os.walk\<close>: a directory is visited before the subdirectories that are
  left after pruning, and these in the order of the listing.\<close>

fun walk_tasks ::
  "(string \<Rightarrow> string) \<Rightarrow> os_env \<Rightarrow> string \<Rightarrow> bool \<Rightarrow> string \<Rightarrow> tree \<Rightarrow> (exn + task list) \<times> log" where
  "walk_tasks lower os default_engine only_include_mode dir Unvisited = (Inr [], [])"
| "walk_tasks lower os default_engine only_include_mode dir (Dir dirs files) =
     (let dirs = filter (\<lambda>d. fst d \<notin> set SKIP_DIRS) dirs
      in in_order
           (dir_tasks lower os dir default_engine only_include_mode files
            # map (\<lambda>d. walk_tasks lower os default_engine only_include_mode
                          (path_join dir (fst d)) (snd d)) dirs))"

definition generate_compile_tasks ::
  "(string \<Rightarrow> string) \<Rightarrow> os_env \<Rightarrow> string \<Rightarrow> string \<Rightarrow> bool \<Rightarrow> (exn + task list) \<times> log" where
  "generate_compile_tasks lower os root_dir default_engine only_include_mode =
     walk_tasks lower os default_engine only_include_mode root_dir (walk_tree os root_dir)"

section \<open>Compilation executor\<close>

text \<open>
  A result is the task's dict with \<open>success\<close>, \<open>elapsed_time\<close> and \<open>full_command\<close> added,
  and \<open>error_msg\<close> on the failing branches only. Times are real numbers.
\<close>

record build_result = task +
  success :: bool
  elapsed_time :: real
  error_msg :: "string option"
  full_command :: "string list"

record completed_process =
  returncode :: int
  stdout :: string
  stderr :: string

text \<open>
  What a worker process meets: \<open>os.path.abspath\<close>, the outcome of
  \<open>subprocess.run(args, cwd=..., capture_output=True, timeout=...)\<close>, which raises or
  returns the completed process with the bytes it captured, and the clock, \<open>clock k\<close>
  being the value of the \<open>k\<close>-th call of \<open>time.time()\<close>, counted from 0.
\<close>

record worker_env =
  worker_abspath :: "string \<Rightarrow> exn + string"
  subprocess_run :: "string list \<Rightarrow> string \<Rightarrow> nat \<Rightarrow> exn + completed_process"
  clock :: "nat \<Rightarrow> real"

text \<open>The statements before the \<open>try\<close> block that build the command; an exception raised
  by \<open>os.path.abspath\<close> leaves the function.\<close>

definition latex_full_command :: "worker_env \<Rightarrow> task \<Rightarrow> exn + string list" where
  "latex_full_command env t =
     (case worker_abspath env (subdir t) of
        Inl e \<Rightarrow> Inl e
      | Inr out_abs \<Rightarrow>
          (case worker_abspath env (path_join (subdir t) ''.aux'') of
             Inl e \<Rightarrow> Inl e
           | Inr aux_abs \<Rightarrow>
               let out_dir = replace_backslash out_abs;
                   aux_dir = replace_backslash aux_abs
               in Inr [''latexmk'',
                       ''-file-line-error'',
                       ''-halt-on-error'',
                       ''-interaction=nonstopmode'',
                       ''-synctex=1'',
                       ''-'' @ engine t,
                       ''-auxdir='' @ aux_dir,
                       ''-outdir='' @ out_dir,
                       tex_file t]))"

text \<open>\<open>task_result.update({...})\<close> on the copy of the task.\<close>

definition update_result :: "task \<Rightarrow> bool \<Rightarrow> real \<Rightarrow> string option \<Rightarrow> string list \<Rightarrow> build_result" where
  "update_result t ok secs msg cmd =
     \<lparr>tex_file = tex_file t, subdir = subdir t, engine = engine t, append_info = append_info t,
      success = ok, elapsed_time = secs, error_msg = msg, full_command = cmd\<rparr>"

text \<open>
  The \<open>try\<close> block: the result, or the exception that leaves the block together with
  the number of clock readings made so far; and what was logged on the way.
\<close>

definition try_compile :: "worker_env \<Rightarrow> task \<Rightarrow> string list \<Rightarrow> ((exn \<times> nat) + build_result) \<times> log" where
  "try_compile env t cmd =
     (let start_time = clock env 0
      in case subprocess_run env cmd (subdir t) 180 of
           Inl e \<Rightarrow> (Inl (e, 1), [])
         | Inr result \<Rightarrow>
             if returncode result = 0
             then (Inr (update_result t True (clock env 1 - start_time) None cmd),
                   [(DEBUG, ''Successfully compiled '' @ tex_file t)])
             else (case decode_utf8 (stderr result) of
                     Inl e \<Rightarrow> (Inl (e, 2), [(ERROR, ''Failed to compile '' @ tex_file t)])
                   | Inr text \<Rightarrow>
                       (Inr (update_result t False (clock env 1 - start_time) (Some text) cmd),
                        [(ERROR, ''Failed to compile '' @ tex_file t)])))"

text \<open>
  The function: \<open>Inl\<close> is an exception that leaves it, raised before the \<open>try\<close> block or
  caught by neither handler.
\<close>

definition run_single_compile_task :: "worker_env \<Rightarrow> task \<Rightarrow> (exn + build_result) \<times> log" where
  "run_single_compile_task env t =
     (case latex_full_command env t of
        Inl e \<Rightarrow> (Inl e, [])
      | Inr cmd \<Rightarrow>
          let start_time = clock env 0;
              lg = [(DEBUG, ''Compiling '' @ tex_file t @ '' ('' @ engine t @ '')''),
                    (DEBUG, ''Full command: '' @ str_join '' '' cmd)]
          in case try_compile env t cmd of
               (Inr task_result, lg') \<Rightarrow> (Inr task_result, lg @ lg')
             | (Inl (e, k), lg') \<Rightarrow>
                 if exn_class e = TimeoutExpired
                 then (Inr (update_result t False (clock env k - start_time)
                              (Some ''Compilation timed out.'') cmd),
                       lg @ lg' @ [(ERROR, ''Compilation of '' @ tex_file t @ '' timed out.'')])
                 else if is_Exception e
                 then (Inr (update_result t False (clock env k - start_time)
                              (Some (str_exn e)) cmd),
                       lg @ lg' @ [(ERROR, ''Error during compilation of '' @ tex_file t @ '': ''
                                            @ str_exn e)])
                 else (Inl e, lg @ lg'))"

section \<open>Scheduler\<close>

text \<open>
  Subscripting a dict. The dicts of the program have string keys; the key of a
  subscript may also be an integer. The text of a \<open>KeyError\<close> is the \<open>repr\<close> of the key,
  written here for keys without quotes, backslashes or control characters.
\<close>

datatype pykey = StrKey string | IntKey int

definition str_int :: "int \<Rightarrow> string" where
  "str_int i = (if i < 0 then ''-'' @ str_nat (nat (- i)) else str_nat (nat i))"

fun repr_key :: "pykey \<Rightarrow> string" where
  "repr_key (IntKey i) = str_int i"
| "repr_key (StrKey k) = [quote] @ k @ [quote]"

definition getitem :: "(pykey \<times> 'v) list \<Rightarrow> pykey \<Rightarrow> exn + 'v" where
  "getitem d k = (case map_of d k of None \<Rightarrow> Inl (Exn KeyError (repr_key k)) | Some v \<Rightarrow> Inr v)"

text \<open>The items of a task; the value \<open>None\<close> is Python's \<open>None\<close>.\<close>

definition task_dict :: "task \<Rightarrow> (pykey \<times> string option) list" where
  "task_dict t =
     [(StrKey ''tex_file'', Some (tex_file t)),
      (StrKey ''subdir'', Some (subdir t)),
      (StrKey ''engine'', Some (engine t)),
      (StrKey ''append_info'', append_info t)]"

definition str_value :: "string option \<Rightarrow> string" where
  "str_value v = (case v of None \<Rightarrow> ''None'' | Some x \<Rightarrow> x)"

text \<open>
  The scheduler's process. \<open>startup_error\<close> is the exception, if any, raised before the
  loop, by printing the first line, starting the pool or submitting the tasks.
  \<open>retrieval_error i\<close> is the exception, if any, that \<open>future.result()\<close> raises for the
  \<open>i\<close>-th submitted task without the worker's function having raised it (a worker that
  died, a result that cannot be sent back); \<open>worker i\<close> is what the worker running that
  task meets; \<open>as_completed\<close> orders the futures by completion. \<open>console r k\<close> is the
  exception, if any, raised by the \<open>k\<close>-th \<open>print\<close> of the progress report of the result
  \<open>r\<close>, counted from 0; the text printed is not modelled.
\<close>

record 'f pool =
  startup_error :: "exn option"
  retrieval_error :: "nat \<Rightarrow> exn option"
  worker :: "nat \<Rightarrow> worker_env"
  as_completed :: "'f list \<Rightarrow> 'f list"
  console :: "build_result \<Rightarrow> nat \<Rightarrow> exn option"

text \<open>
  \<open>show_current_compile_result\<close>: three calls of \<open>print\<close> for a failed result, the third
  after the subscript \<open>task_result['error_msg']\<close>, the only subscript that can name a
  missing key; one call for a success when not quiet.
\<close>

definition show_current_compile_result ::
  "(build_result \<Rightarrow> nat \<Rightarrow> exn option) \<Rightarrow> build_result \<Rightarrow> nat \<Rightarrow> nat \<Rightarrow> bool \<Rightarrow> exn + unit" where
  "show_current_compile_result out task_result task_nums task_cnt quiet_in_process =
     (if \<not> success task_result then
        (case out task_result 0 of
           Some e \<Rightarrow> Inl e
         | None \<Rightarrow>
             (case out task_result 1 of
                Some e \<Rightarrow> Inl e
              | None \<Rightarrow>
                  (case error_msg task_result of
                     None \<Rightarrow> Inl (Exn KeyError (repr_key (StrKey ''error_msg'')))
                   | Some m \<Rightarrow>
                       (case out task_result 2 of Some e \<Rightarrow> Inl e | None \<Rightarrow> Inr ()))))
      else if \<not> quiet_in_process then
        (case out task_result 0 of Some e \<Rightarrow> Inl e | None \<Rightarrow> Inr ())
      else Inr ())"

text \<open>The outcome of \<open>future.result()\<close> for the \<open>i\<close>-th submitted task: an exception that
  left the worker's function is raised again.\<close>

definition future_result :: "'f pool \<Rightarrow> nat \<Rightarrow> task \<Rightarrow> exn + build_result" where
  "future_result p i t =
     (case retrieval_error p i of
        Some e \<Rightarrow> Inl e
      | None \<Rightarrow> fst (run_single_compile_task (worker p i) t))"

text \<open>
  The loop over the completed futures, each paired with its task as in the dict
  \<open>futures\<close>: the counter, the results so far and the log. \<open>Inl\<close> is an exception that
  leaves the loop, and with it the function. The handler formats \<open>futures[future][0]\<close>
  before it logs.
\<close>

fun collect_results ::
  "(build_result \<Rightarrow> nat \<Rightarrow> exn option) \<Rightarrow> nat \<Rightarrow> bool \<Rightarrow> (task \<times> (exn + build_result)) list \<Rightarrow> nat
     \<Rightarrow> build_result list \<Rightarrow> log \<Rightarrow> (exn + build_result list) \<times> log" where
  "collect_results out task_nums quiet [] task_cnt task_results lg = (Inr task_results, lg)"
| "collect_results out task_nums quiet ((t, future) # rest) task_cnt task_results lg =
     (let tried =
            (case future of
               Inl e \<Rightarrow> (task_results, Inl e)
             | Inr task_result \<Rightarrow>
                 (task_results @ [task_result],
                  show_current_compile_result out task_result task_nums task_cnt quiet))
      in case tried of
           (task_results', Inr u) \<Rightarrow>
             collect_results out task_nums quiet rest (task_cnt + 1) task_results' lg
         | (task_results', Inl e) \<Rightarrow>
             if \<not> is_Exception e then (Inl e, lg)
             else
               (case getitem (task_dict t) (IntKey 0) of
                  Inl e' \<Rightarrow> (Inl e', lg)
                | Inr v \<Rightarrow>
                    collect_results out task_nums quiet rest (task_cnt + 1) task_results'
                      (lg @ [(ERROR, ''Error running task: '' @ str_value v
                                     @ '' ('' @ str_exn e @ '')'')])))"

definition submit_all ::
  "(task \<times> (exn + build_result)) pool \<Rightarrow> task list \<Rightarrow> (task \<times> (exn + build_result)) list" where
  "submit_all p tasks = map (\<lambda>(i, t). (t, future_result p i t)) (enumerate 0 tasks)"

definition run_compile_tasks ::
  "(task \<times> (exn + build_result)) pool \<Rightarrow> task list \<Rightarrow> bool \<Rightarrow> (exn + build_result list) \<times> log" where
  "run_compile_tasks p tasks quiet_in_process =
     (case startup_error p of
        Some e \<Rightarrow> (Inl e, [])
      | None \<Rightarrow>
          collect_results (console p) (length tasks) quiet_in_process
            (as_completed p (submit_all p tasks)) 0 [] [])"

section \<open>Reporter\<close>

text \<open>
  The values that \<open>json.dump\<close> meets in a result, and its output for
  \<open>ensure_ascii=False, indent=4\<close>. How a float is written (\<open>float.__repr__\<close>) is a
  parameter.
\<close>

datatype json =
    JNull
  | JBool bool
  | JFloat real
  | JStr string
  | JList "json list"
  | JDict "(string \<times> json) list"

definition dquote :: char where
  "dquote = CHR 0x22"

definition hex4 :: "nat \<Rightarrow> string" where
  "hex4 n = [hex_digit (n div 4096 mod 16), hex_digit (n div 256 mod 16),
             hex_digit (n div 16 mod 16), hex_digit (n mod 16)]"

definition json_escape :: "char \<Rightarrow> string" where
  "json_escape c =
     (let n = (of_char c :: nat)
      in if c = dquote then [backslash, dquote]
         else if c = backslash then [backslash, backslash]
         else if n = 10 then [backslash, CHR ''n'']
         else if n = 13 then [backslash, CHR ''r'']
         else if n = 9 then [backslash, CHR ''t'']
         else if n = 8 then [backslash, CHR ''b'']
         else if n = 12 then [backslash, CHR ''f'']
         else if n < 32 then [backslash, CHR ''u''] @ hex4 n
         else [c])"

definition json_string :: "string \<Rightarrow> string" where
  "json_string s = [dquote] @ concat (map json_escape s) @ [dquote]"

definition newline_indent :: "nat \<Rightarrow> string" where
  "newline_indent level = newline # replicate (4 * level) CHR '' ''"

fun json_encode :: "(real \<Rightarrow> string) \<Rightarrow> nat \<Rightarrow> json \<Rightarrow> string" where
  "json_encode float_repr level JNull = ''null''"
| "json_encode float_repr level (JBool b) = (if b then ''true'' else ''false'')"
| "json_encode float_repr level (JFloat x) = float_repr x"
| "json_encode float_repr level (JStr s) = json_string s"
| "json_encode float_repr level (JList xs) =
     (if xs = [] then ''[]''
      else ''['' @ newline_indent (level + 1)
           @ str_join ('','' @ newline_indent (level + 1))
               (map (json_encode float_repr (level + 1)) xs)
           @ newline_indent level @ '']'')"
| "json_encode float_repr level (JDict items) =
     (if items = [] then ''{}''
      else ''{'' @ newline_indent (level + 1)
           @ str_join ('','' @ newline_indent (level + 1))
               (map (\<lambda>kv. json_string (fst kv) @ '': ''
                            @ json_encode float_repr (level + 1) (snd kv)) items)
           @ newline_indent level @ ''}'')"

text \<open>The items of a result dict, in insertion order: the task's keys, then the keys of
  the \<open>update\<close>.\<close>

definition result_dict :: "build_result \<Rightarrow> json" where
  "result_dict r =
     JDict ([(''tex_file'', JStr (tex_file r)),
             (''subdir'', JStr (subdir r)),
             (''engine'', JStr (engine r)),
             (''append_info'', (case append_info r of None \<Rightarrow> JNull | Some i \<Rightarrow> JStr i)),
             (''success'', JBool (success r)),
             (''elapsed_time'', JFloat (elapsed_time r))]
            @ (case error_msg r of None \<Rightarrow> [] | Some m \<Rightarrow> [(''error_msg'', JStr m)])
            @ [(''full_command'', JList (map JStr (full_command r)))])"

text \<open>
  The current directory: its files by name, whether opening a name for writing raises,
  and whether writing a text to the open file raises, in which case only a part of the
  text reaches the file.
\<close>

record cwd =
  files :: "string \<rightharpoonup> string"
  open_error :: "string \<Rightarrow> exn option"
  write_error :: "string \<Rightarrow> (string \<times> exn) option"

definition log_name :: string where
  "log_name = ''auto-latexmk.log''"

text \<open>The text that the loop writes: for each result its JSON text and a line
  terminator.\<close>

definition log_text :: "(real \<Rightarrow> string) \<Rightarrow> build_result list \<Rightarrow> string" where
  "log_text float_repr tasks_results =
     concat (map (\<lambda>task_result. json_encode float_repr 0 (result_dict task_result) @ [newline])
               tasks_results)"

text \<open>The function: the exception that leaves it, if one does, the current directory
  afterwards, and what was logged.\<close>

definition output_to_json_logfile ::
  "(real \<Rightarrow> string) \<Rightarrow> build_result list \<Rightarrow> cwd \<Rightarrow> exn option \<times> cwd \<times> log" where
  "output_to_json_logfile float_repr tasks_results d =
     (let handler = (\<lambda>e d'. if is_Exception e
                             then (None, d', [(ERROR, ''Error writing to log file: '' @ str_exn e)])
                             else (Some e, d', []))
      in case open_error d log_name of
           Some e \<Rightarrow> handler e d
         | None \<Rightarrow>
             (case write_error d (log_text float_repr tasks_results) of
                Some (written, e) \<Rightarrow> handler e (d\<lparr>files := (files d)(log_name \<mapsto> written)\<rparr>)
              | None \<Rightarrow>
                  (None,
                   d\<lparr>files := (files d)(log_name \<mapsto> log_text float_repr tasks_results)\<rparr>,
                   [(DEBUG, ''Compilation results successfully written to auto-latexmk.log'')])))"

section \<open>Notions used to state the properties\<close>

text \<open>
  A line carries a directive with a keyword when, stripped and in lower case, it starts
  with the directive prefix and contains the keyword.
\<close>

definition directive_with :: "(string \<Rightarrow> string) \<Rightarrow> string \<Rightarrow> string \<Rightarrow> bool" where
  "directive_with lower keyword line =
     (startswith (lower (strip line)) directive_prefix \<and> str_in keyword (lower (strip line)))"

definition first_three_lines :: "string \<Rightarrow> string list" where
  "first_three_lines content = take 3 (file_lines content)"

definition first_line :: "string \<Rightarrow> string" where
  "first_line content = strip (fst (cut content))"

text \<open>The engine that a first line names after the prefix \<open>% !TEX\<close>; of several names
  the first in the order xelatex, pdflatex, lualatex.\<close>

definition shebang_engine :: "string \<Rightarrow> string option" where
  "shebang_engine l =
     (if \<not> startswith l shebang_prefix then None
      else find (\<lambda>name. str_in name l) [''xelatex'', ''pdflatex'', ''lualatex''])"

text \<open>The lines before the first line that contains \<open>\begin{document}\<close>, and among them
  the first with a \<open>ctex\<close> token.\<close>

definition preamble :: "string list \<Rightarrow> string list" where
  "preamble ls = takeWhile (\<lambda>l. \<not> str_in begin_document (strip l)) ls"

definition ctex_line :: "string list \<Rightarrow> string option" where
  "ctex_line ls = find (\<lambda>l. str_in ''ctex'' (strip l)) (preamble ls)"

text \<open>
  The paths that discovery hands to \<open>os.path.abspath\<close>: the entries named \<open>*.tex\<close> of the
  directories that the walk visits. And the paths that it opens.
\<close>

fun candidates :: "string \<Rightarrow> tree \<Rightarrow> string list" where
  "candidates dir Unvisited = []"
| "candidates dir (Dir dirs entries) =
     map (path_join dir) (filter (\<lambda>f. endswith f ''.tex'') entries)
     @ concat (map (\<lambda>d. candidates (path_join dir (fst d)) (snd d))
                 (filter (\<lambda>d. fst d \<notin> set SKIP_DIRS) dirs))"

definition tex_paths :: "os_env \<Rightarrow> string \<Rightarrow> string list" where
  "tex_paths os root_dir =
     concat (map (\<lambda>p. case abspath os p of Inl e \<Rightarrow> [] | Inr q \<Rightarrow> [replace_backslash q])
               (candidates root_dir (walk_tree os root_dir)))"

section \<open>Example inputs\<close>

text \<open>\<open>str.lower\<close> on ASCII text, which is what the examples are.\<close>

definition lower_ascii :: "string \<Rightarrow> string" where
  "lower_ascii s =
     map (\<lambda>c. let n = (of_char c :: nat) in if 65 \<le> n \<and> n \<le> 90 then char_of (n + 32) else c) s"

definition main_tex :: string where
  "main_tex = docclass_marker @ ''{article}'' @ [newline]
              @ begin_document @ [newline] @ ''Hello'' @ [newline]"

definition skip_tex :: string where
  "skip_tex = ''% Auto-LaTeXmk: skip'' @ [newline] @ docclass_marker @ ''{article}'' @ [newline]"

definition both_tex :: string where
  "both_tex = ''% auto-latexmk include'' @ [newline] @ ''% auto-latexmk exclude'' @ [newline]
              @ docclass_marker @ ''{article}'' @ [newline]"

definition pdf_tex :: string where
  "pdf_tex = ''% !TEX program = pdflatex'' @ [newline] @ docclass_marker @ ''{ctexart}'' @ [newline]"

definition ctex_tex :: string where
  "ctex_tex = docclass_marker @ ''{ctexart}'' @ [newline] @ begin_document @ [newline]"

definition root_tex :: string where
  "root_tex = ''% !TEX root = main.tex'' @ [newline] @ backslash # ''usepackage{ctex}'' @ [newline]"

definition part_tex :: string where
  "part_tex = ''% auto-latexmk include'' @ [newline] @ backslash # ''section{Part}'' @ [newline]"

text \<open>The files of the examples. The reader gets \<open>both.tex\<close> in two pieces, the first of
  which ends inside the first line, and the others in one piece.\<close>

definition example_fs :: filesystem where
  "example_fs p =
     (if p = ''/w/main.tex'' then Inr (Chunk main_tex EOF)
      else if p = ''/w/skip.tex'' then Inr (Chunk skip_tex EOF)
      else if p = ''/w/both.tex'' then Inr (Chunk (take 18 both_tex) (Chunk (drop 18 both_tex) EOF))
      else if p = ''/w/pdf.tex'' then Inr (Chunk pdf_tex EOF)
      else if p = ''/w/sub/ctex.tex'' then Inr (Chunk ctex_tex EOF)
      else if p = ''/w/sub/root.tex'' then Inr (Chunk root_tex EOF)
      else if p = ''/w/sub/part.tex'' then Inr (Chunk part_tex EOF)
      else Inl (Exn OtherException ''[Errno 2] No such file or directory''))"

definition example_task :: task where
  "example_task =
     \<lparr>tex_file = ''/w/main.tex'', subdir = ''/w'', engine = ''xelatex'', append_info = None\<rparr>"

definition pdf_task :: task where
  "pdf_task =
     \<lparr>tex_file = ''/w/pdf.tex'', subdir = ''/w'', engine = ''pdf'',
      append_info = Some ''% !TEX program = pdflatex''\<rparr>"

text \<open>A run that fails and writes two bytes to stderr that are not UTF-8 (a character
  in GBK), a run that succeeds, and a run that times out.\<close>

definition gbk_process :: completed_process where
  "gbk_process = \<lparr>returncode = 12, stdout = [], stderr = [CHR 0xD5, CHR 0xD2]\<rparr>"

definition gbk_env :: worker_env where
  "gbk_env =
     \<lparr>worker_abspath = Inr,
      subprocess_run = (\<lambda>cmd cwd timeout. Inr gbk_process),
      clock = (\<lambda>k. real k)\<rparr>"

definition ok_env :: worker_env where
  "ok_env =
     \<lparr>worker_abspath = Inr,
      subprocess_run = (\<lambda>cmd cwd timeout. Inr \<lparr>returncode = 0, stdout = [], stderr = []\<rparr>),
      clock = (\<lambda>k. real k)\<rparr>"

definition slow_env :: worker_env where
  "slow_env =
     \<lparr>worker_abspath = Inr,
      subprocess_run = (\<lambda>cmd cwd timeout.
         Inl (Exn TimeoutExpired ''Command timed out after 180 seconds'')),
      clock = (\<lambda>k. 200 * real k)\<rparr>"

section \<open>Whitespace\<close>

lemma startswith_append: "startswith s w \<Longrightarrow> startswith (s @ r) w"
  by (induction s w rule: startswith.induct) auto

text \<open>What \<open>strip_left\<close> returns starts with none of the characters, is a suffix of the
  text, and is returned as it is by a second call.\<close>

lemma strip_left_clean:
  "find (\<lambda>w. w \<noteq> [] \<and> startswith (strip_left chars s) w) chars = None"
proof (induction chars s rule: strip_left.induct)
  case (1 chars s)
  show ?case
  proof (cases "find (\<lambda>w. w \<noteq> [] \<and> startswith s w) chars")
    case None
    then show ?thesis by (simp add: strip_left.simps[of chars s])
  next
    case (Some w)
    with "1.IH"[of w] show ?thesis by (simp add: strip_left.simps[of chars s])
  qed
qed

lemma strip_left_fixed:
  "find (\<lambda>w. w \<noteq> [] \<and> startswith s w) chars = None \<Longrightarrow> strip_left chars s = s"
  by (simp add: strip_left.simps[of chars s])

lemma strip_left_idem: "strip_left chars (strip_left chars s) = strip_left chars s"
  by (rule strip_left_fixed) (rule strip_left_clean)

lemma strip_left_suffix: "\<exists>r. s = r @ strip_left chars s"
proof (induction chars s rule: strip_left.induct)
  case (1 chars s)
  show ?case
  proof (cases "find (\<lambda>w. w \<noteq> [] \<and> startswith s w) chars")
    case None
    then show ?thesis by (simp add: strip_left.simps[of chars s])
  next
    case (Some w)
    with "1.IH"[of w] obtain r where "drop (length w) s = r @ strip_left chars (drop (length w) s)"
      by blast
    then have "s = (take (length w) s @ r) @ strip_left chars (drop (length w) s)"
      by (metis append.assoc append_take_drop_id)
    then have "\<exists>r. s = r @ strip_left chars (drop (length w) s)" by (rule exI)
    with Some show ?thesis by (simp add: strip_left.simps[of chars s])
  qed
qed

lemma clean_prefix:
  assumes "find (\<lambda>w. w \<noteq> [] \<and> startswith (u @ v) w) chars = None"
  shows "find (\<lambda>w. w \<noteq> [] \<and> startswith u w) chars = None"
  using assms startswith_append[of u _ v] by (auto simp: find_None_iff)

lemma strip_strip: "strip (strip s) = strip s"
proof -
  define u where "u = lstrip s"
  define t where "t = strip_left (map rev whitespace) (rev u)"
  have "\<exists>r. rev u = r @ t" unfolding t_def by (rule strip_left_suffix)
  then obtain r where "rev u = r @ t" by blast
  then have "u = rev t @ rev r" by (metis rev_append rev_rev_ident)
  moreover have "find (\<lambda>w. w \<noteq> [] \<and> startswith u w) whitespace = None"
    unfolding u_def lstrip_def by (rule strip_left_clean)
  ultimately have "find (\<lambda>w. w \<noteq> [] \<and> startswith (rev t) w) whitespace = None"
    using clean_prefix[of "rev t" "rev r" whitespace] by simp
  then have "lstrip (rev t) = rev t" unfolding lstrip_def by (rule strip_left_fixed)
  moreover have "rstrip (rev t) = rev t"
    by (simp add: rstrip_def t_def strip_left_idem)
  moreover have "strip s = rev t" by (simp add: strip_def rstrip_def t_def u_def)
  ultimately show ?thesis by (simp add: strip_def)
qed

section \<open>Lines\<close>

lemma cut_nonempty: "s \<noteq> [] \<Longrightarrow> fst (cut s) \<noteq> []"
  by (cases s) (auto split: prod.splits)

lemma file_lines_cut:
  "s \<noteq> [] \<Longrightarrow> file_lines s = fst (cut s) # file_lines (snd (cut s))"
proof (induction s)
  case Nil
  then show ?case by simp
next
  case (Cons c cs)
  show ?case
  proof (cases "c = newline")
    case True
    then show ?thesis by simp
  next
    case False
    show ?thesis
    proof (cases cs)
      case Nil
      with False show ?thesis by simp
    next
      case (Cons d ds)
      with Cons.IH have "file_lines cs = fst (cut cs) # file_lines (snd (cut cs))" by simp
      with False show ?thesis by (simp split: prod.splits)
    qed
  qed
qed

lemma cut_append:
  "newline \<in> set b \<Longrightarrow> cut (b @ c) = (fst (cut b), snd (cut b) @ c)"
  by (induction b) (auto split: prod.splits)

text \<open>On a file that can be read to its end, \<open>readline\<close> returns the first line of the
  text not yet consumed, and leaves a reader that holds the rest.\<close>

lemma readline_read_all:
  "read_all f = Inr content \<Longrightarrow>
   \<exists>buf' f' rest. readline buf f = Inr (fst (cut (buf @ content)), buf', f')
      \<and> read_all f' = Inr rest \<and> buf' @ rest = snd (cut (buf @ content))"
proof (induction f arbitrary: buf content)
  case EOF
  then show ?case by simp
next
  case (Chunk c f)
  from Chunk.prems obtain s where s: "read_all f = Inr s" and content: "content = c @ s"
    by (auto split: sum.splits)
  show ?case
  proof (cases "newline \<in> set buf")
    case True
    with Chunk.prems show ?thesis by (simp add: cut_append)
  next
    case False
    with Chunk.IH[OF s, of "buf @ c"] content show ?thesis by simp
  qed
next
  case (Fail e)
  then show ?case by simp
qed

section \<open>The main-file decision\<close>

text \<open>The loop over the first three lines sets each flag exactly when one of the lines
  it reads carries the matching directive.\<close>

lemma scan_directives_flags:
  "read_all f = Inr content \<Longrightarrow>
   scan_directives lower n buf f (ex, inc) =
     Inr (ex \<or> (\<exists>l \<in> set (take n (file_lines (buf @ content))).
                   directive_with lower ''exclude'' l \<or> directive_with lower ''skip'' l),
          inc \<or> (\<exists>l \<in> set (take n (file_lines (buf @ content))).
                   directive_with lower ''include'' l))"
proof (induction n arbitrary: buf f content ex inc)
  case 0
  then show ?case by simp
next
  case (Suc n)
  from readline_read_all[OF Suc.prems, of buf] obtain buf' f' rest
    where r: "readline buf f = Inr (fst (cut (buf @ content)), buf', f')"
      and rest: "read_all f' = Inr rest"
      and split: "buf' @ rest = snd (cut (buf @ content))"
    by blast
  show ?case
  proof (cases "buf @ content = []")
    case True
    with r show ?thesis by simp
  next
    case False
    then have ne: "fst (cut (buf @ content)) \<noteq> []" by (rule cut_nonempty)
    from False split have fl: "file_lines (buf @ content)
        = fst (cut (buf @ content)) # file_lines (buf' @ rest)"
      using file_lines_cut[of "buf @ content"] by simp
    show ?thesis
      using r ne fl Suc.IH[OF rest, of buf'] by (auto simp: Let_def directive_with_def)
  qed
qed

text \<open>
  C4. For a file that can be opened and read to its end: it is a main file exactly when
  its content contains the marker \<open>\documentclass\<close> and, in include-only mode, one of
  its first three lines is a \<open>% auto-latexmk\<close> directive containing \<open>include\<close>; in default
  mode, none of its first three lines is such a directive containing \<open>exclude\<close> or
  \<open>skip\<close>. In particular a file without the marker is not a main file in either mode.
\<close>

theorem is_main_tex_file_decision:
  assumes "fs tex_file_path = Inr f" and "read_all f = Inr content"
  shows "fst (is_main_tex_file lower fs tex_file_path only_include_mode) =
     Inr (str_in docclass_marker content \<and>
          (if only_include_mode
           then (\<exists>l \<in> set (first_three_lines content). directive_with lower ''include'' l)
           else \<not> (\<exists>l \<in> set (first_three_lines content).
                      directive_with lower ''exclude'' l \<or> directive_with lower ''skip'' l)))"
  using assms scan_directives_flags[OF assms(2), of lower 3 "[]" False False]
  by (simp add: is_main_tex_file_def try_is_main_def first_three_lines_def Let_def)

theorem is_main_tex_file_decision_witness:
  "example_fs ''/w/skip.tex'' = Inr (Chunk skip_tex EOF)
   \<and> read_all (Chunk skip_tex EOF) = Inr skip_tex
   \<and> str_in docclass_marker skip_tex
   \<and> (\<exists>l \<in> set (first_three_lines skip_tex).
         directive_with lower_ascii ''exclude'' l \<or> directive_with lower_ascii ''skip'' l)
   \<and> fst (is_main_tex_file lower_ascii example_fs ''/w/skip.tex'' False) = Inr False
   \<and> fst (is_main_tex_file lower_ascii example_fs ''/w/main.tex'' False) = Inr True
   \<and> fst (is_main_tex_file lower_ascii example_fs ''/w/main.tex'' True) = Inr False
   \<and> \<not> str_in docclass_marker part_tex
   \<and> fst (is_main_tex_file lower_ascii example_fs ''/w/sub/part.tex'' False) = Inr False
   \<and> fst (is_main_tex_file lower_ascii example_fs ''/w/sub/part.tex'' True) = Inr False"
proof -
  have r1: "example_fs ''/w/skip.tex'' = Inr (Chunk skip_tex EOF)" by (simp add: example_fs_def)
  have r2: "example_fs ''/w/main.tex'' = Inr (Chunk main_tex EOF)" by (simp add: example_fs_def)
  have r3: "example_fs ''/w/sub/part.tex'' = Inr (Chunk part_tex EOF)" by (simp add: example_fs_def)
  have a: "read_all (Chunk s EOF) = Inr s" for s by simp
  have m1: "str_in docclass_marker skip_tex" by code_simp
  have m2: "str_in docclass_marker main_tex" by code_simp
  have m3: "\<not> str_in docclass_marker part_tex" by code_simp
  have d1: "\<exists>l \<in> set (first_three_lines skip_tex).
              directive_with lower_ascii ''exclude'' l \<or> directive_with lower_ascii ''skip'' l"
    by code_simp
  have d2: "\<not> (\<exists>l \<in> set (first_three_lines main_tex).
                 directive_with lower_ascii ''exclude'' l \<or> directive_with lower_ascii ''skip'' l)"
    by code_simp
  have d3: "\<not> (\<exists>l \<in> set (first_three_lines main_tex). directive_with lower_ascii ''include'' l)"
    by code_simp
  show ?thesis
    using is_main_tex_file_decision[of example_fs "''/w/skip.tex''" "Chunk skip_tex EOF" skip_tex lower_ascii False]
      is_main_tex_file_decision[of example_fs "''/w/main.tex''" "Chunk main_tex EOF" main_tex lower_ascii False]
      is_main_tex_file_decision[of example_fs "''/w/main.tex''" "Chunk main_tex EOF" main_tex lower_ascii True]
      is_main_tex_file_decision[of example_fs "''/w/sub/part.tex''" "Chunk part_tex EOF" part_tex lower_ascii False]
      is_main_tex_file_decision[of example_fs "''/w/sub/part.tex''" "Chunk part_tex EOF" part_tex lower_ascii True]
      r1 r2 r3 a m1 m2 m3 d1 d2 d3
    by simp
qed

text \<open>
  C9. A file that can be opened and read to its end, with the marker, whose first three
  lines carry both an include directive and an exclude or skip directive, is rejected
  in default mode and accepted in include-only mode.
\<close>

theorem include_and_exclude_independent:
  assumes "fs tex_file_path = Inr f" and "read_all f = Inr content"
    and "str_in docclass_marker content"
    and "\<exists>l \<in> set (first_three_lines content). directive_with lower ''include'' l"
    and "\<exists>l \<in> set (first_three_lines content).
           directive_with lower ''exclude'' l \<or> directive_with lower ''skip'' l"
  shows "fst (is_main_tex_file lower fs tex_file_path False) = Inr False
       \<and> fst (is_main_tex_file lower fs tex_file_path True) = Inr True"
  using assms scan_directives_flags[OF assms(2), of lower 3 "[]" False False]
  by (simp add: is_main_tex_file_def try_is_main_def first_three_lines_def Let_def)

theorem include_and_exclude_independent_witness:
  "example_fs ''/w/both.tex'' = Inr (Chunk (take 18 both_tex) (Chunk (drop 18 both_tex) EOF))
   \<and> read_all (Chunk (take 18 both_tex) (Chunk (drop 18 both_tex) EOF)) = Inr both_tex
   \<and> fst (is_main_tex_file lower_ascii example_fs ''/w/both.tex'' False) = Inr False
   \<and> fst (is_main_tex_file lower_ascii example_fs ''/w/both.tex'' True) = Inr True"
proof -
  have r: "example_fs ''/w/both.tex'' = Inr (Chunk (take 18 both_tex) (Chunk (drop 18 both_tex) EOF))"
    by (simp add: example_fs_def)
  have a: "read_all (Chunk (take 18 both_tex) (Chunk (drop 18 both_tex) EOF)) = Inr both_tex"
    by simp
  have m: "str_in docclass_marker both_tex" by code_simp
  have i: "\<exists>l \<in> set (first_three_lines both_tex). directive_with lower_ascii ''include'' l"
    by code_simp
  have e: "\<exists>l \<in> set (first_three_lines both_tex).
             directive_with lower_ascii ''exclude'' l \<or> directive_with lower_ascii ''skip'' l"
    by code_simp
  show ?thesis
    using include_and_exclude_independent[of example_fs "''/w/both.tex''"
        "Chunk (take 18 both_tex) (Chunk (drop 18 both_tex) EOF)" both_tex lower_ascii]
      r a m i e
    by simp
qed

section \<open>Engine detection\<close>

text \<open>On a file that can be read to its end, the second pass returns the first preamble
  line with a \<open>ctex\<close> token, stripped.\<close>

lemma scan_ctex_find:
  "read_all f = Inr content \<Longrightarrow>
   scan_ctex buf f = Inr (map_option strip (ctex_line (file_lines (buf @ content))))"
proof (induction buf f arbitrary: content rule: scan_ctex.induct)
  case (1 buf f)
  from readline_read_all[OF "1.prems", of buf] obtain buf' f' rest
    where r: "readline buf f = Inr (fst (cut (buf @ content)), buf', f')"
      and rest: "read_all f' = Inr rest"
      and split: "buf' @ rest = snd (cut (buf @ content))"
    by blast
  show ?case
  proof (cases "buf @ content = []")
    case True
    with r show ?thesis
      by (subst scan_ctex.simps) (simp add: ctex_line_def preamble_def)
  next
    case False
    define l where "l = fst (cut (buf @ content))"
    from False have ne: "l \<noteq> []" unfolding l_def by (rule cut_nonempty)
    from False split have fl: "file_lines (buf @ content) = l # file_lines (buf' @ rest)"
      using file_lines_cut[of "buf @ content"] by (simp add: l_def)
    from r have r': "readline buf f = Inr (l, buf', f')" by (simp add: l_def)
    show ?thesis
    proof (cases "str_in begin_document (strip l) \<or> str_in ''ctex'' (strip l)")
      case True
      with r' ne fl show ?thesis
        by (subst scan_ctex.simps) (auto simp: ctex_line_def preamble_def Let_def)
    next
      case False
      with "1.IH"[OF r' refl refl ne refl _ _ rest]
      have "scan_ctex buf' f' = Inr (map_option strip (ctex_line (file_lines (buf' @ rest))))"
        by simp
      with False r' ne fl show ?thesis
        by (subst scan_ctex.simps) (simp add: ctex_line_def preamble_def Let_def)
    qed
  qed
qed

lemma get_tex_engine_cases:
  assumes "fs p = Inr f" and "read_all f = Inr content"
  shows "get_tex_engine fs p d =
     (case shebang_engine (first_line content) of
        Some e \<Rightarrow> (Inr (e, Some (first_line content)), [])
      | None \<Rightarrow>
          (case ctex_line (file_lines content) of
             Some l \<Rightarrow> (Inr (''xelatex'', Some (strip l)), [])
           | None \<Rightarrow> (Inr (d, None), [])))"
proof -
  from readline_read_all[OF assms(2), of "[]"] obtain buf' f'
    where r: "readline [] f = Inr (fst (cut content), buf', f')"
    by auto
  have c: "scan_ctex [] f = Inr (map_option strip (ctex_line (file_lines content)))"
    using scan_ctex_find[OF assms(2), of "[]"] by simp
  show ?thesis
    using assms(1) r c
    by (auto simp: get_tex_engine_def try_engine_def shebang_pass_def ctex_pass_def
        shebang_engine_def first_line_def strip_strip Let_def split: option.splits)
qed

text \<open>
  C5. For a file that can be opened and read to its end, detection follows a strict
  priority. When the first line is a \<open>% !TEX\<close> directive naming a supported engine, that
  engine is returned with the first line as note, whatever the other lines and the
  default are. Otherwise, when a line before \<open>\begin{document}\<close> contains \<open>ctex\<close>, the
  engine is xelatex with that line as note, whatever the default is. Otherwise the
  default is returned as it is, without a note.
\<close>

theorem get_tex_engine_priority:
  assumes "fs p = Inr f" and "read_all f = Inr content"
  shows "(shebang_engine (first_line content) = Some e \<longrightarrow>
            get_tex_engine fs p d = (Inr (e, Some (first_line content)), []))
       \<and> (shebang_engine (first_line content) = None
            \<and> ctex_line (file_lines content) = Some l \<longrightarrow>
            get_tex_engine fs p d = (Inr (''xelatex'', Some (strip l)), []))
       \<and> (shebang_engine (first_line content) = None
            \<and> ctex_line (file_lines content) = None \<longrightarrow>
            get_tex_engine fs p d = (Inr (d, None), []))"
  using assms get_tex_engine_cases[of fs p f content d] by simp

theorem get_tex_engine_priority_witness:
  "example_fs ''/w/pdf.tex'' = Inr (Chunk pdf_tex EOF)
   \<and> read_all (Chunk pdf_tex EOF) = Inr pdf_tex
   \<and> shebang_engine (first_line pdf_tex) = Some ''pdflatex''
   \<and> ctex_line (file_lines pdf_tex) \<noteq> None
   \<and> get_tex_engine example_fs ''/w/pdf.tex'' ''lualatex''
       = (Inr (''pdflatex'', Some ''% !TEX program = pdflatex''), [])
   \<and> shebang_engine (first_line ctex_tex) = None
   \<and> get_tex_engine example_fs ''/w/sub/ctex.tex'' ''lualatex''
       = (Inr (''xelatex'', Some (docclass_marker @ ''{ctexart}'')), [])
   \<and> shebang_engine (first_line main_tex) = None
   \<and> ctex_line (file_lines main_tex) = None
   \<and> get_tex_engine example_fs ''/w/main.tex'' ''lualatex'' = (Inr (''lualatex'', None), [])"
proof -
  have r1: "example_fs ''/w/pdf.tex'' = Inr (Chunk pdf_tex EOF)" by (simp add: example_fs_def)
  have r2: "example_fs ''/w/sub/ctex.tex'' = Inr (Chunk ctex_tex EOF)" by (simp add: example_fs_def)
  have r3: "example_fs ''/w/main.tex'' = Inr (Chunk main_tex EOF)" by (simp add: example_fs_def)
  have a: "read_all (Chunk s EOF) = Inr s" for s by simp
  have s1: "shebang_engine (first_line pdf_tex) = Some ''pdflatex''" by code_simp
  have f1: "first_line pdf_tex = ''% !TEX program = pdflatex''" by code_simp
  have c1: "ctex_line (file_lines pdf_tex) \<noteq> None" by code_simp
  have s2: "shebang_engine (first_line ctex_tex) = None" by code_simp
  have c2: "ctex_line (file_lines ctex_tex) = Some (docclass_marker @ ''{ctexart}'' @ [newline])"
    by code_simp
  have t2: "strip (docclass_marker @ ''{ctexart}'' @ [newline]) = docclass_marker @ ''{ctexart}''"
    by code_simp
  have s3: "shebang_engine (first_line main_tex) = None" by code_simp
  have c3: "ctex_line (file_lines main_tex) = None" by code_simp
  show ?thesis
    using get_tex_engine_priority[of example_fs "''/w/pdf.tex''" "Chunk pdf_tex EOF" pdf_tex
        "''pdflatex''" "''lualatex''"]
      get_tex_engine_priority[of example_fs "''/w/sub/ctex.tex''" "Chunk ctex_tex EOF" ctex_tex _
        "''lualatex''" "docclass_marker @ ''{ctexart}'' @ [newline]"]
      get_tex_engine_priority[of example_fs "''/w/main.tex''" "Chunk main_tex EOF" main_tex _
        "''lualatex''"]
      r1 r2 r3 a s1 f1 c1 s2 c2 t2 s3 c3
    by simp
qed

text \<open>
  C10. For a file that can be opened and read to its end and whose first line starts
  with \<open>% !TEX\<close> but names none of the three engines, detection goes on to the scan of
  the lines before \<open>\begin{document}\<close>, the first line included: the result is xelatex
  with the matching line as note when one of them contains \<open>ctex\<close>, and the default
  without a note otherwise.
\<close>

theorem shebang_without_engine_falls_through:
  assumes "fs p = Inr f" and "read_all f = Inr content"
    and "startswith (first_line content) shebang_prefix"
    and "\<not> str_in ''xelatex'' (first_line content)"
    and "\<not> str_in ''pdflatex'' (first_line content)"
    and "\<not> str_in ''lualatex'' (first_line content)"
  shows "get_tex_engine fs p d =
     (case ctex_line (file_lines content) of
        Some l \<Rightarrow> (Inr (''xelatex'', Some (strip l)), [])
      | None \<Rightarrow> (Inr (d, None), []))"
proof -
  from assms(3-6) have "shebang_engine (first_line content) = None"
    by (simp add: shebang_engine_def)
  with assms(1,2) get_tex_engine_cases[of fs p f content d] show ?thesis by simp
qed

theorem shebang_without_engine_falls_through_witness:
  "example_fs ''/w/sub/root.tex'' = Inr (Chunk root_tex EOF)
   \<and> read_all (Chunk root_tex EOF) = Inr root_tex
   \<and> startswith (first_line root_tex) shebang_prefix
   \<and> get_tex_engine example_fs ''/w/sub/root.tex'' ''lualatex''
       = (Inr (''xelatex'', Some (backslash # ''usepackage{ctex}'')), [])"
proof -
  have r: "example_fs ''/w/sub/root.tex'' = Inr (Chunk root_tex EOF)" by (simp add: example_fs_def)
  have a: "read_all (Chunk root_tex EOF) = Inr root_tex" by simp
  have p: "startswith (first_line root_tex) shebang_prefix" by code_simp
  have n1: "\<not> str_in ''xelatex'' (first_line root_tex)" by code_simp
  have n2: "\<not> str_in ''pdflatex'' (first_line root_tex)" by code_simp
  have n3: "\<not> str_in ''lualatex'' (first_line root_tex)" by code_simp
  have c: "ctex_line (file_lines root_tex) = Some (backslash # ''usepackage{ctex}'' @ [newline])"
    by code_simp
  have t: "strip (backslash # ''usepackage{ctex}'' @ [newline]) = backslash # ''usepackage{ctex}''"
    by code_simp
  show ?thesis
    using shebang_without_engine_falls_through[of example_fs "''/w/sub/root.tex''"
        "Chunk root_tex EOF" root_tex "''lualatex''"]
      r a p n1 n2 n3 c t
    by simp
qed

section \<open>The executor\<close>

text \<open>
  C2. The task \<open>/w/main.tex\<close> is compiled; latexmk exits with code 12 and its stderr is
  the two bytes D5 D2, which are not UTF-8. Decoding them raises inside the \<open>try\<close>
  block, the handler for \<open>Exception\<close> catches the \<open>UnicodeDecodeError\<close>, and the
  diagnostic of the result is the description of that error instead of the captured
  stderr; the elapsed time is the one read in the handler.
\<close>

theorem run_single_compile_task_stderr_not_utf8:
  "latex_full_command gbk_env example_task
     = Inr [''latexmk'', ''-file-line-error'', ''-halt-on-error'', ''-interaction=nonstopmode'',
            ''-synctex=1'', ''-xelatex'', ''-auxdir=/w/.aux'', ''-outdir=/w'', ''/w/main.tex'']
   \<and> subprocess_run gbk_env (projr (latex_full_command gbk_env example_task))
         (subdir example_task) 180 = Inr gbk_process
   \<and> returncode gbk_process = 12
   \<and> stderr gbk_process = [CHR 0xD5, CHR 0xD2]
   \<and> fst (run_single_compile_task gbk_env example_task)
       = Inr \<lparr>tex_file = ''/w/main.tex'', subdir = ''/w'', engine = ''xelatex'',
              append_info = None, success = False, elapsed_time = 2,
              error_msg = Some ([quote] @ ''utf-8'' @ [quote] @ '' codec can'' @ [quote]
                 @ ''t decode byte 0xd5 in position 0: invalid continuation byte''),
              full_command = projr (latex_full_command gbk_env example_task)\<rparr>"
proof -
  have d: "decode_utf8 [CHR 0xD5, CHR 0xD2]
    = Inl (Exn UnicodeDecodeError ([quote] @ ''utf-8'' @ [quote] @ '' codec can'' @ [quote]
               @ ''t decode byte 0xd5 in position 0: invalid continuation byte''))"
    by code_simp
  have j: "path_join ''/w'' ''.aux'' = ''/w/.aux''" by code_simp
  have c: "latex_full_command gbk_env example_task
     = Inr [''latexmk'', ''-file-line-error'', ''-halt-on-error'', ''-interaction=nonstopmode'',
            ''-synctex=1'', ''-xelatex'', ''-auxdir=/w/.aux'', ''-outdir=/w'', ''/w/main.tex'']"
    by (simp add: latex_full_command_def gbk_env_def example_task_def j replace_backslash_def
        backslash_def)
  have s: "subprocess_run gbk_env cmd dir secs = Inr gbk_process" for cmd dir secs
    by (simp add: gbk_env_def)
  have k: "clock gbk_env n = real n" for n
    by (simp add: gbk_env_def)
  have p: "returncode gbk_process = 12" "stderr gbk_process = [CHR 0xD5, CHR 0xD2]"
    by (simp_all add: gbk_process_def)
  have t: "tex_file example_task = ''/w/main.tex''" "subdir example_task = ''/w''"
    "engine example_task = ''xelatex''" "append_info example_task = None"
    by (simp_all add: example_task_def)
  show ?thesis
    by (simp add: run_single_compile_task_def try_compile_def c s k p t d update_result_def
        is_Exception_def)
qed

end
